theory Spec2Isabelle
  imports Main "HOL-Library.Sublist"
begin

section \<open>API types of the device-management prototype\<close>

text \<open>
  The types follow \<^verbatim>\<open>dra-evolution/pkg/api/claim_types.go\<close>. A Go pointer field
  (\<^verbatim>\<open>*string\<close>, \<^verbatim>\<open>*IntRange\<close>, an embedded \<^verbatim>\<open>*ClassReference\<close>) is an
  \<open>option\<close>: \<open>None\<close> is the nil pointer. A slice is a list. Object metadata and
  type metadata are not read by any function modelled here and are left out.
  Where two Go structs have a field of the same name, the record fields carry the
  struct as a prefix (\<open>claim_Config\<close>, \<open>request_Config\<close>).
\<close>

type_synonym RawExtension = string

record VendorConfigurationParameters =
  DriverName :: string
  Parameters :: RawExtension

text \<open>\<^verbatim>\<open>ConfigurationParameters must have one and only one field set.\<close>\<close>

record ConfigurationParameters =
  Vendor :: "VendorConfigurationParameters option"

text \<open>\<^verbatim>\<open>ClassReference must have one and only one field set.\<close>\<close>

record ClassReference =
  ResourceClassName :: "string option"

record IntRange =
  Minimum :: "int option"
  Maximum :: "int option"

text \<open>\<^verbatim>\<open>MatchModel must have one and only one field set.\<close>\<close>

record MatchModel =
  Attribute :: "string option"

text \<open>
  The validators of \<^verbatim>\<open>parse_test.go\<close> read \<^verbatim>\<open>requirement.DeviceSelector\<close> of an
  \<^verbatim>\<open>api.Requirement\<close> and \<^verbatim>\<open>requirement.MatchAttribute\<close> of an \<^verbatim>\<open>api.Constraint\<close>,
  both of type \<^verbatim>\<open>*string\<close>. The declarations of
  \<^verbatim>\<open>Requirement\<close> and \<^verbatim>\<open>Constraint\<close> under \<^verbatim>\<open>pkg/api\<close> are of another revision
  (they name the variants \<^verbatim>\<open>Device\<close> and \<^verbatim>\<open>Match\<close>); the records below hold the
  field that the validators read.
\<close>

record Requirement =
  DeviceSelector :: "string option"

record Constraint =
  MatchAttribute :: "string option"

record ResourceRequestDetail =
  request_ClassReference :: "ClassReference option"
  request_Config :: "ConfigurationParameters list"
  AdminAccess :: "bool option"
  Match :: "MatchModel list"
  Count :: "IntRange option"
  Requirements :: "Requirement list"

text \<open>
  \<^verbatim>\<open>ResourceRequest\<close> (called \<^verbatim>\<open>api.Request\<close> by the validators): the embedded
  pointer \<^verbatim>\<open>*ResourceRequestDetail\<close> and the list of alternatives \<^verbatim>\<open>OneOf\<close>.
\<close>

record ResourceRequest =
  Name :: string
  ResourceRequestDetail :: "ResourceRequestDetail option"
  OneOf :: "ResourceRequestDetail list"

record ResourceClaimSpec =
  claim_ClassReference :: "ClassReference option"
  claim_Config :: "ConfigurationParameters list"
  Constraints :: "Constraint list"
  Requests :: "ResourceRequest list"
  Shareable :: bool

record ResourceClassClaimOptions =
  class_claim_Config :: "ConfigurationParameters list"
  class_claim_Constraints :: "Constraint list"

record ResourceClassRequestOptions =
  class_request_Config :: "ConfigurationParameters list"
  class_request_Requirements :: "Requirement list"

record ResourceClass =
  ControllerName :: string
  Claim :: ResourceClassClaimOptions
  Request :: ResourceClassRequestOptions
  DefaultRequests :: "ResourceRequest list"

text \<open>
  \<^verbatim>\<open>DriverConfiguration\<close> with its inlined \<^verbatim>\<open>DriverConfigurationAlternatives\<close>:
  \<^verbatim>\<open>Admin\<close> \<open>is true if the source of the piece was a class\<close>.
\<close>

record DriverConfiguration =
  Admin :: bool
  driver_Vendor :: "RawExtension option"

text \<open>
  The allocation result in the status of a claim. \<^verbatim>\<open>AllocationResultModel must have
  one and only one field set\<close>, and so must the \<^verbatim>\<open>DriverConfigurationAlternatives\<close>
  inlined above. Fields of Kubernetes core types (node selectors, consumer references)
  are left out.
\<close>

record NamedDeviceAllocationResult =
  device_Name :: string

record AllocationResultModel =
  Device :: "NamedDeviceAllocationResult option"

record RequestAllocationResult =
  result_Config :: "DriverConfiguration list"
  RequestName :: string
  AllocationResultModel :: AllocationResultModel

record StructuredDriverData =
  structured_Config :: "DriverConfiguration list"
  NodeName :: string
  Results :: "RequestAllocationResult list"

record DriverData =
  data_DriverName :: string
  Data :: string
  Structured :: "StructuredDriverData option"

record AllocationResult =
  DriverData :: "DriverData list"
  allocation_Shareable :: bool

record ResourceClaimStatus =
  status_ControllerName :: string
  Allocation :: "AllocationResult option"
  DeallocationRequested :: bool

record ResourceClaimSpecReference =
  APIGroup :: string
  Kind :: string
  reference_Name :: string

text \<open>
  The three kinds of object that \<^verbatim>\<open>testDecode\<close> tells apart, with the fields it
  reads: \<^verbatim>\<open>obj.Requirements\<close> of a device class, \<^verbatim>\<open>obj.Spec\<close> of a claim and
  \<^verbatim>\<open>obj.Spec.Spec\<close> of a claim template. Every other registered type is
  \<open>OtherObject\<close>. \<^verbatim>\<open>testDecode\<close> hands \<^verbatim>\<open>obj.Spec\<close> of a claim on as a value of
  type \<^verbatim>\<open>api.ResourceClaimSpec\<close>. \<^verbatim>\<open>SpecRef\<close> (\<open>Spec and SpecRef are mutually
  exclusive\<close>) and \<^verbatim>\<open>Status\<close> are the other fields that \<^verbatim>\<open>claim_types.go\<close>
  declares for a claim; \<^verbatim>\<open>testDecode\<close> does not read them.
\<close>

record DeviceClass =
  class_Requirements :: "Requirement list"

record ResourceClaim =
  Spec :: ResourceClaimSpec
  SpecRef :: "ResourceClaimSpecReference option"
  Status :: ResourceClaimStatus

record ResourceClaimTemplateSpec =
  template_spec_Spec :: ResourceClaimSpec

record ResourceClaimTemplate =
  template_Spec :: ResourceClaimTemplateSpec

datatype Object =
    DeviceClassObject DeviceClass
  | ResourceClaimObject ResourceClaim
  | ResourceClaimTemplateObject ResourceClaimTemplate
  | OtherObject

section \<open>The test state \<^verbatim>\<open>*testing.T\<close>\<close>

text \<open>
  A test records failures and goes on (\<^verbatim>\<open>t.Errorf\<close>, \<^verbatim>\<open>assert.NotNil\<close>,
  \<^verbatim>\<open>assert.Nil\<close>), or records one and stops (\<^verbatim>\<open>require.NoError\<close>), or is marked
  skipped and stops (\<^verbatim>\<open>t.Skipf\<close>). A failure keeps the call that reported it: the
  format string and the arguments of \<^verbatim>\<open>t.Errorf\<close>, the message of an assertion
  (and the non-nil error that \<^verbatim>\<open>assert.Nil\<close> or \<^verbatim>\<open>require.NoError\<close> was given).
\<close>

datatype fmtarg = ArgString string | ArgInt nat

datatype failure =
    Errorf string "fmtarg list"
  | NotNilFailed string
  | NilFailed string string
  | NoErrorFailed string

record T =
  failures :: "failure list"
  skipped :: bool

definition t_Errorf :: "T \<Rightarrow> string \<Rightarrow> fmtarg list \<Rightarrow> T" where
  "t_Errorf t format args = t\<lparr>failures := failures t @ [Errorf format args]\<rparr>"

definition t_fail :: "T \<Rightarrow> failure \<Rightarrow> T" where
  "t_fail t f = t\<lparr>failures := failures t @ [f]\<rparr>"

definition t_Skipf :: "T \<Rightarrow> T" where
  "t_Skipf t = t\<lparr>skipped := True\<rparr>"

section \<open>Strings and paths\<close>

text \<open>\<^verbatim>\<open>strings.Contains(s, substr)\<close>: \<open>substr\<close> occurs in \<open>s\<close> as a contiguous run.\<close>

primrec strings_Contains :: "string \<Rightarrow> string \<Rightarrow> bool" where
  "strings_Contains [] substr = (substr = [])"
| "strings_Contains (c # cs) substr = (prefix substr (c # cs) \<or> strings_Contains cs substr)"

text \<open>The verb \<^verbatim>\<open>%d\<close> of \<^verbatim>\<open>fmt.Sprintf\<close> on a loop index (never negative).\<close>

definition digit :: "nat \<Rightarrow> char" where
  "digit d = ''0123456789'' ! d"

fun itoa :: "nat \<Rightarrow> string" where
  "itoa n = (if n < 10 then [digit n] else itoa (n div 10) @ [digit (n mod 10)])"

declare itoa.simps [simp del]

text \<open>\<^verbatim>\<open>fmt.Sprintf("%s[%d]", path, i)\<close>\<close>

definition indexed :: "string \<Rightarrow> nat \<Rightarrow> string" where
  "indexed path i = path @ ''['' @ itoa i @ '']''"

section \<open>The validators of \<^verbatim>\<open>parse_test.go\<close>\<close>

text \<open>
  The CEL compiler \<^verbatim>\<open>cel.Compiler.CompileCELExpression\<close> lives in
  \<^verbatim>\<open>pkg/schedule\<close>, which is not among the sources; the validators take it as the
  parameter \<open>compile\<close>, of which they read the field \<^verbatim>\<open>Error\<close> (\<open>None\<close>: the
  expression compiled).
\<close>

record CompilationResult =
  Error :: "string option"

text \<open>
  \<^verbatim>\<open>if !assert.NotNil(t, p, path) { return }\<close> is the equation for \<open>None\<close>: the
  assertion fails with the message \<open>path\<close> and the validator returns. The equation
  for \<open>Some\<close> is the rest of the body, which reads \<^verbatim>\<open>*p\<close>.
\<close>

type_synonym compiler = "string \<Rightarrow> CompilationResult"

fun validateMatchAttribute :: "T \<Rightarrow> string option \<Rightarrow> string \<Rightarrow> T" where
  "validateMatchAttribute t None path = t_fail t (NotNilFailed path)"
| "validateMatchAttribute t (Some attributeName) path =
     (if \<not> strings_Contains attributeName ''.''
      then t_Errorf t ''%q: must be a non-empty DNS domain (including at least one dot)''
             [ArgString attributeName]
      else t)"

fun validateDeviceSelector :: "compiler \<Rightarrow> T \<Rightarrow> string option \<Rightarrow> string \<Rightarrow> T" where
  "validateDeviceSelector compile t None path = t_fail t (NotNilFailed path)"
| "validateDeviceSelector compile t (Some deviceSelector) path =
     (case Error (compile deviceSelector) of
        None \<Rightarrow> t
      | Some err \<Rightarrow> t_fail t (NilFailed err (path @ ''.selector parse error'')))"

text \<open>
  \<^verbatim>\<open>for i, requirement := range requirements\<close>: the loops carry the index \<open>i\<close> of
  the element at the head of what is left of the slice.
\<close>

fun validateRequestRequirements_from ::
  "compiler \<Rightarrow> T \<Rightarrow> nat \<Rightarrow> Requirement list \<Rightarrow> string \<Rightarrow> T" where
  "validateRequestRequirements_from compile t i [] path = t"
| "validateRequestRequirements_from compile t i (requirement # rest) path =
     validateRequestRequirements_from compile
       (validateDeviceSelector compile t (DeviceSelector requirement)
          (indexed path i @ ''.deviceSelector''))
       (Suc i) rest path"

definition validateRequestRequirements ::
  "compiler \<Rightarrow> T \<Rightarrow> Requirement list \<Rightarrow> string \<Rightarrow> T" where
  "validateRequestRequirements compile t requirements path =
     validateRequestRequirements_from compile t 0 requirements path"

fun validateClaimConstraints_from :: "T \<Rightarrow> nat \<Rightarrow> Constraint list \<Rightarrow> string \<Rightarrow> T" where
  "validateClaimConstraints_from t i [] path = t"
| "validateClaimConstraints_from t i (requirement # rest) path =
     validateClaimConstraints_from
       (validateMatchAttribute t (MatchAttribute requirement)
          (indexed path i @ ''.matchAttribute''))
       (Suc i) rest path"

definition validateClaimConstraints :: "T \<Rightarrow> Constraint list \<Rightarrow> string \<Rightarrow> T" where
  "validateClaimConstraints t requirements path =
     validateClaimConstraints_from t 0 requirements path"

definition validateRequest :: "compiler \<Rightarrow> T \<Rightarrow> ResourceRequestDetail \<Rightarrow> string \<Rightarrow> T" where
  "validateRequest compile t request path =
     validateRequestRequirements compile t (Requirements request) (path @ ''.requirements'')"

text \<open>
  In \<^verbatim>\<open>validateRequests\<close> the test of both fields being set, the conjunct
  \<^verbatim>\<open>len(request.OneOf) == 0\<close> and the loop over \<^verbatim>\<open>request.OneOf\<close> are commented
  out in the source, so the body reads \<^verbatim>\<open>request.ResourceRequestDetail\<close> only.
\<close>

fun validateRequests_from ::
  "compiler \<Rightarrow> T \<Rightarrow> nat \<Rightarrow> ResourceRequest list \<Rightarrow> string \<Rightarrow> T" where
  "validateRequests_from compile t i [] path = t"
| "validateRequests_from compile t i (request # rest) path =
     (case ResourceRequestDetail request of
        None \<Rightarrow>
          validateRequests_from compile
            (t_Errorf t ''%s[%d]: must request one device or oneOf'' [ArgString path, ArgInt i])
            (Suc i) rest path
      | Some detail \<Rightarrow>
          validateRequests_from compile
            (validateRequest compile t detail (indexed path i))
            (Suc i) rest path)"

definition validateRequests ::
  "compiler \<Rightarrow> T \<Rightarrow> ResourceRequest list \<Rightarrow> string \<Rightarrow> T" where
  "validateRequests compile t requests path = validateRequests_from compile t 0 requests path"

definition validateResourceClaimSpec ::
  "compiler \<Rightarrow> T \<Rightarrow> ResourceClaimSpec \<Rightarrow> string \<Rightarrow> T" where
  "validateResourceClaimSpec compile t claimSpec path =
     validateRequests compile
       (validateClaimConstraints t (Constraints claimSpec) (path @ ''.constraints''))
       (Requests claimSpec) (path @ ''.requests'')"

text \<open>
  \<^verbatim>\<open>serializer.Decode\<close> belongs to the Kubernetes libraries and is the parameter
  \<open>decode\<close>: it gives the decoded object or an error, and
  \<^verbatim>\<open>runtime.IsNotRegisteredError\<close> tells the error of an unregistered kind from
  every other.
\<close>

datatype decode_error = NotRegisteredErr string | OtherErr string

fun IsNotRegisteredError :: "decode_error \<Rightarrow> bool" where
  "IsNotRegisteredError (NotRegisteredErr _) = True"
| "IsNotRegisteredError (OtherErr _) = False"

fun error_text :: "decode_error \<Rightarrow> string" where
  "error_text (NotRegisteredErr s) = s"
| "error_text (OtherErr s) = s"

type_synonym decoder = "string \<Rightarrow> decode_error + Object"

definition testDecode :: "decoder \<Rightarrow> compiler \<Rightarrow> T \<Rightarrow> string \<Rightarrow> T" where
  "testDecode decode compile t content =
     (case decode content of
        Inl err \<Rightarrow>
          if IsNotRegisteredError err then t_Skipf t
          else t_fail t (NoErrorFailed (error_text err))
      | Inr obj \<Rightarrow>
          (case obj of
             DeviceClassObject c \<Rightarrow>
               validateRequestRequirements compile t (class_Requirements c) ''class.requirements''
           | ResourceClaimObject c \<Rightarrow>
               validateResourceClaimSpec compile t (Spec c) ''claim.spec''
           | ResourceClaimTemplateObject c \<Rightarrow>
               validateResourceClaimSpec compile t (template_spec_Spec (template_Spec c))
                 ''claimTemplate.spec.spec''
           | OtherObject \<Rightarrow> t))"


section \<open>Resolution of a claim\<close>

text \<open>
  Modelled from the spec: the function that determines how many devices a request
  asks for (spec 4.3, step 2) is not among the sources; only the declarations of
  \<^verbatim>\<open>Count\<close> and \<^verbatim>\<open>IntRange\<close> are. Spec 3: \<open>a desired-count range (minimum
  default 1, maximum default unbounded)\<close>; spec 4.3: \<open>min defaults to 1, max defaults
  to "all remaining matches"\<close>. The result is the pair of the minimum and the
  maximum, \<open>None\<close> for no upper limit; a count that is not set has neither bound
  set. (The documentation of the field \<^verbatim>\<open>Count\<close> reads \<open>If unset, exactly one
  instance must be available\<close>; the definition follows the spec.)
\<close>

definition desiredCount :: "IntRange option \<Rightarrow> int \<times> int option" where
  "desiredCount count =
     (case count of
        None \<Rightarrow> (1, None)
      | Some r \<Rightarrow> (case Minimum r of None \<Rightarrow> 1 | Some minimum \<Rightarrow> minimum, Maximum r))"

text \<open>\<open>x\<close> instances are within the desired count (\<^verbatim>\<open>x >= minimum\<close>, \<^verbatim>\<open>x <= maximum\<close>).\<close>

definition withinCount :: "IntRange option \<Rightarrow> int \<Rightarrow> bool" where
  "withinCount count x =
     (case desiredCount count of
        (minimum, None) \<Rightarrow> minimum \<le> x
      | (minimum, Some maximum) \<Rightarrow> minimum \<le> x \<and> x \<le> maximum)"

text \<open>
  Modelled from the spec: the function that computes the effective request list of a
  claim is not among the sources. Spec 3: \<open>A claim's effective request list is its
  own Requests if non-empty, else the first non-empty DefaultRequests of its referenced
  class, else a single default (unconstrained, count=1) request\<close>. The default
  request has no class, no match criteria and no requirements, and its count is one:
  minimum and maximum are both one. \<open>classes\<close> are the classes that the claim
  references, in order; \<open>referencedClasses\<close> looks the one name of a
  \<^verbatim>\<open>ClassReference\<close> up in a catalog of classes.
\<close>

definition defaultRequest :: ResourceRequest where
  "defaultRequest =
     \<lparr>Name = [],
      ResourceRequestDetail = Some \<lparr>request_ClassReference = None, request_Config = [],
        AdminAccess = None, Match = [],
        Count = Some \<lparr>Minimum = Some 1, Maximum = Some 1\<rparr>, Requirements = []\<rparr>,
      OneOf = []\<rparr>"

definition referencedClasses ::
  "(string \<rightharpoonup> ResourceClass) \<Rightarrow> ClassReference option \<Rightarrow> ResourceClass list" where
  "referencedClasses catalog reference =
     (case reference of
        None \<Rightarrow> []
      | Some r \<Rightarrow>
          (case ResourceClassName r of
             None \<Rightarrow> []
           | Some name \<Rightarrow> (case catalog name of None \<Rightarrow> [] | Some c \<Rightarrow> [c])))"

definition effectiveRequests ::
  "ResourceClaimSpec \<Rightarrow> ResourceClass list \<Rightarrow> ResourceRequest list" where
  "effectiveRequests claim classes =
     (if Requests claim \<noteq> [] then Requests claim
      else (case find (\<lambda>c. DefaultRequests c \<noteq> []) classes of
              Some c \<Rightarrow> DefaultRequests c
            | None \<Rightarrow> [defaultRequest]))"

text \<open>
  Modelled from the spec: the config merger is not among the sources; only the result
  types \<^verbatim>\<open>DriverConfiguration\<close>, \<^verbatim>\<open>StructuredDriverData\<close> and
  \<^verbatim>\<open>RequestAllocationResult\<close> are. Spec 4.4: the entries of four sources are
  concatenated, \<open>(1) claim-level config, (2) config from the claim's referenced
  class, (3) request-level config, (4) config from the request's referenced class\<close>,
  those of a class tagged as coming from the administrator. The four lists are the
  arguments, since the spec does not say which list of a class is meant. In the
  result types the first two sources are documented as
  \<^verbatim>\<open>StructuredDriverData.Config\<close> (\<open>claim, claim class reference\<close>) and the last
  two as \<^verbatim>\<open>RequestAllocationResult.Config\<close>
  (\<open>claim request, claim request class reference\<close>).
\<close>

definition driverConfiguration :: "bool \<Rightarrow> ConfigurationParameters \<Rightarrow> DriverConfiguration" where
  "driverConfiguration admin c =
     \<lparr>Admin = admin, driver_Vendor = map_option Parameters (Vendor c)\<rparr>"

definition mergeConfig ::
  "ConfigurationParameters list \<Rightarrow> ConfigurationParameters list \<Rightarrow>
   ConfigurationParameters list \<Rightarrow> ConfigurationParameters list \<Rightarrow> DriverConfiguration list" where
  "mergeConfig claimConfig claimClassConfig requestConfig requestClassConfig =
     map (driverConfiguration False) claimConfig
     @ map (driverConfiguration True) claimClassConfig
     @ map (driverConfiguration False) requestConfig
     @ map (driverConfiguration True) requestClassConfig"

section \<open>What a validator reports\<close>

text \<open>
  A fresh test, the failures that a run added to a test, and a test with more
  failures. The reports below are what each validator adds: they are read off the
  validators run in a fresh test.
\<close>

definition T0 :: T where
  "T0 = \<lparr>failures = [], skipped = False\<rparr>"

definition new_failures :: "T \<Rightarrow> T \<Rightarrow> failure list" where
  "new_failures t t' = drop (length (failures t)) (failures t')"

definition add_failures :: "T \<Rightarrow> failure list \<Rightarrow> T" where
  "add_failures t fs = t\<lparr>failures := failures t @ fs\<rparr>"

definition selector_report :: "compiler \<Rightarrow> string option \<Rightarrow> string \<Rightarrow> failure list" where
  "selector_report compile sel path = failures (validateDeviceSelector compile T0 sel path)"

definition attribute_report :: "string option \<Rightarrow> string \<Rightarrow> failure list" where
  "attribute_report name path = failures (validateMatchAttribute T0 name path)"

definition requirements_report :: "compiler \<Rightarrow> Requirement list \<Rightarrow> string \<Rightarrow> failure list" where
  "requirements_report compile rs path =
     concat (map (\<lambda>(j, r). selector_report compile (DeviceSelector r)
        (indexed path j @ ''.deviceSelector'')) (enumerate 0 rs))"

definition constraints_report :: "Constraint list \<Rightarrow> string \<Rightarrow> failure list" where
  "constraints_report cs path =
     concat (map (\<lambda>(j, c). attribute_report (MatchAttribute c)
        (indexed path j @ ''.matchAttribute'')) (enumerate 0 cs))"

definition request_report :: "compiler \<Rightarrow> string \<Rightarrow> nat \<Rightarrow> ResourceRequest \<Rightarrow> failure list" where
  "request_report compile path j r =
     (case ResourceRequestDetail r of
        None \<Rightarrow> [Errorf ''%s[%d]: must request one device or oneOf'' [ArgString path, ArgInt j]]
      | Some d \<Rightarrow> requirements_report compile (Requirements d) (indexed path j @ ''.requirements''))"

definition requests_report :: "compiler \<Rightarrow> ResourceRequest list \<Rightarrow> string \<Rightarrow> failure list" where
  "requests_report compile rs path =
     concat (map (\<lambda>(j, r). request_report compile path j r) (enumerate 0 rs))"

section \<open>Sample inputs\<close>

text \<open>
  A compiler that accepts every expression, one that rejects the unfinished
  comparison \<^verbatim>\<open>device.driverName ==\<close>, a decoder that knows one device class and
  does not know the kind \<^verbatim>\<open>Pod\<close>, and a class with one default request. The claim
  \<open>claim_unset_sample\<close> has a spec and a reference to a spec; none of its class
  references, configuration entries, match models and allocation results has a field
  set, nor has the requirement of the alternative of its request.
\<close>

definition compile_ok :: compiler where
  "compile_ok expression = \<lparr>Error = None\<rparr>"

definition compile_sample :: compiler where
  "compile_sample expression =
     \<lparr>Error = (if expression = ''device.driverName ==''
               then Some ''Syntax error: mismatched input'' else None)\<rparr>"

definition decode_sample :: decoder where
  "decode_sample content =
     (if content = ''kind: Pod'' then Inl (NotRegisteredErr ''no kind Pod is registered'')
      else if content = ''kind: DeviceClass'' then
        Inr (DeviceClassObject
          \<lparr>class_Requirements = [\<lparr>DeviceSelector = Some ''device.driverName ==''\<rparr>]\<rparr>)
      else Inl (OtherErr ''Object Kind is missing''))"

definition claim_unset_sample :: ResourceClaim where
  "claim_unset_sample =
     \<lparr>Spec =
        \<lparr>claim_ClassReference = Some \<lparr>ResourceClassName = None\<rparr>,
         claim_Config = [\<lparr>Vendor = None\<rparr>],
         Constraints = [],
         Requests = [\<lparr>Name = ''gpu'',
           ResourceRequestDetail = Some
             \<lparr>request_ClassReference = Some \<lparr>ResourceClassName = None\<rparr>,
              request_Config = [\<lparr>Vendor = None\<rparr>], AdminAccess = None,
              Match = [\<lparr>Attribute = None\<rparr>], Count = None, Requirements = []\<rparr>,
           OneOf = [\<lparr>request_ClassReference = None, request_Config = [],
              AdminAccess = None, Match = [], Count = None,
              Requirements = [\<lparr>DeviceSelector = None\<rparr>]\<rparr>]\<rparr>],
         Shareable = False\<rparr>,
      SpecRef = Some \<lparr>APIGroup = ''example.com'', Kind = ''FoozerClaim'',
        reference_Name = ''gpu''\<rparr>,
      Status =
        \<lparr>status_ControllerName = [],
         Allocation = Some
           \<lparr>DriverData = [\<lparr>data_DriverName = ''foozer.example.com'', Data = [],
              Structured = Some
                \<lparr>structured_Config = [\<lparr>Admin = False, driver_Vendor = None\<rparr>],
                 NodeName = [],
                 Results = [\<lparr>result_Config = [], RequestName = ''gpu'',
                   AllocationResultModel = \<lparr>Device = None\<rparr>\<rparr>]\<rparr>\<rparr>],
            allocation_Shareable = False\<rparr>,
         DeallocationRequested = False\<rparr>\<rparr>"

definition decode_unset_sample :: decoder where
  "decode_unset_sample content = Inr (ResourceClaimObject claim_unset_sample)"

definition class_sample :: ResourceClass where
  "class_sample =
     \<lparr>ControllerName = [],
      Claim = \<lparr>class_claim_Config = [], class_claim_Constraints = []\<rparr>,
      Request = \<lparr>class_request_Config = [], class_request_Requirements = []\<rparr>,
      DefaultRequests = [\<lparr>Name = ''foozer'', ResourceRequestDetail = None, OneOf = []\<rparr>]\<rparr>"

definition catalog_sample :: "string \<rightharpoonup> ResourceClass" where
  "catalog_sample name = (if name = ''example.com-foozer'' then Some class_sample else None)"

section \<open>Validators only add failures\<close>

lemma add_failures_Nil [simp]: "add_failures t [] = t"
  by (simp add: add_failures_def)

lemma add_failures_add [simp]: "add_failures (add_failures t fs) gs = add_failures t (fs @ gs)"
  by (simp add: add_failures_def)

lemma failures_add [simp]: "failures (add_failures t fs) = failures t @ fs"
  by (simp add: add_failures_def)

lemma add_failures_eq_iff [simp]: "add_failures t fs = t \<longleftrightarrow> fs = []"
proof
  assume "add_failures t fs = t"
  then have "failures (add_failures t fs) = failures t" by simp
  then show "fs = []" by simp
qed simp

lemma skipped_add [simp]: "skipped (add_failures t fs) = skipped t"
  by (simp add: add_failures_def)

lemma new_failures_add [simp]: "new_failures t (add_failures t fs) = fs"
  by (simp add: new_failures_def)

lemma failures_T0 [simp]: "failures T0 = []"
  by (simp add: T0_def)

lemma contains_dot: "strings_Contains s ''.'' \<longleftrightarrow> CHR ''.'' \<in> set s"
  by (induction s) auto

lemma selector_report_simps:
  "selector_report compile None path = [NotNilFailed path]"
  "selector_report compile (Some s) path =
     (case Error (compile s) of
        None \<Rightarrow> []
      | Some e \<Rightarrow> [NilFailed e (path @ ''.selector parse error'')])"
  by (simp_all add: selector_report_def t_fail_def split: option.splits)

lemma attribute_report_simps:
  "attribute_report None path = [NotNilFailed path]"
  "attribute_report (Some name) path =
     (if CHR ''.'' \<in> set name then []
      else [Errorf ''%q: must be a non-empty DNS domain (including at least one dot)''
              [ArgString name]])"
  by (simp_all add: attribute_report_def t_fail_def t_Errorf_def contains_dot)

lemma validateDeviceSelector_add:
  "validateDeviceSelector compile t sel path = add_failures t (selector_report compile sel path)"
  by (cases sel)
     (simp_all add: selector_report_simps t_fail_def add_failures_def split: option.splits)

lemma validateMatchAttribute_add:
  "validateMatchAttribute t name path = add_failures t (attribute_report name path)"
  by (cases name)
     (simp_all add: attribute_report_simps t_fail_def t_Errorf_def add_failures_def contains_dot)

lemma validateRequestRequirements_from_add:
  "validateRequestRequirements_from compile t i rs path =
     add_failures t (concat (map (\<lambda>(j, r). selector_report compile (DeviceSelector r)
        (indexed path j @ ''.deviceSelector'')) (enumerate i rs)))"
  by (induction rs arbitrary: t i) (simp_all add: validateDeviceSelector_add)

lemma validateRequestRequirements_add:
  "validateRequestRequirements compile t rs path =
     add_failures t (requirements_report compile rs path)"
  by (simp add: validateRequestRequirements_def requirements_report_def
      validateRequestRequirements_from_add)

lemma validateClaimConstraints_from_add:
  "validateClaimConstraints_from t i cs path =
     add_failures t (concat (map (\<lambda>(j, c). attribute_report (MatchAttribute c)
        (indexed path j @ ''.matchAttribute'')) (enumerate i cs)))"
  by (induction cs arbitrary: t i) (simp_all add: validateMatchAttribute_add)

lemma validateClaimConstraints_add:
  "validateClaimConstraints t cs path = add_failures t (constraints_report cs path)"
  by (simp add: validateClaimConstraints_def constraints_report_def
      validateClaimConstraints_from_add)

lemma validateRequest_add:
  "validateRequest compile t d path =
     add_failures t (requirements_report compile (Requirements d) (path @ ''.requirements''))"
  by (simp add: validateRequest_def validateRequestRequirements_add)

lemma validateRequests_from_add:
  "validateRequests_from compile t i rs path =
     add_failures t (concat (map (\<lambda>(j, r). request_report compile path j r) (enumerate i rs)))"
  by (induction rs arbitrary: t i)
     (simp_all add: validateRequest_add request_report_def t_Errorf_def add_failures_def
        split: option.splits)

lemma validateRequests_add:
  "validateRequests compile t rs path = add_failures t (requests_report compile rs path)"
  by (simp add: validateRequests_def requests_report_def validateRequests_from_add)

lemma validateResourceClaimSpec_add:
  "validateResourceClaimSpec compile t spec path =
     add_failures t (constraints_report (Constraints spec) (path @ ''.constraints'')
       @ requests_report compile (Requests spec) (path @ ''.requests''))"
  by (simp add: validateResourceClaimSpec_def validateClaimConstraints_add validateRequests_add)

section \<open>Which failures a report holds\<close>

lemma selector_report_no_Errorf: "Errorf f a \<notin> set (selector_report compile sel p)"
  by (cases sel) (simp_all add: selector_report_simps split: option.splits)

lemma requirements_report_no_Errorf: "Errorf f a \<notin> set (requirements_report compile rs p)"
  by (auto simp: requirements_report_def selector_report_no_Errorf)

lemma request_report_Errorf:
  "Errorf ''%s[%d]: must request one device or oneOf'' [ArgString path, ArgInt i]
     \<in> set (request_report compile path j r)
   \<longleftrightarrow> ResourceRequestDetail r = None \<and> j = i"
  by (auto simp: request_report_def requirements_report_no_Errorf split: option.splits)

lemma selector_report_empty:
  "selector_report compile sel p = [] \<longleftrightarrow> (\<exists>s. sel = Some s \<and> Error (compile s) = None)"
  by (cases sel) (simp_all add: selector_report_simps split: option.splits)

lemma selector_report_NotNil:
  "NotNilFailed q \<in> set (selector_report compile sel p) \<longleftrightarrow> sel = None \<and> q = p"
  by (cases sel) (auto simp: selector_report_simps split: option.splits)

lemma attribute_report_NotNil:
  "NotNilFailed q \<in> set (attribute_report name p) \<longleftrightarrow> name = None \<and> q = p"
  by (cases name) (auto simp: attribute_report_simps)

lemma all_enumerate_snd:
  "(\<forall>x \<in> set (enumerate n xs). P (snd x)) \<longleftrightarrow> (\<forall>r \<in> set xs. P r)"
proof -
  have "set xs = snd ` set (enumerate n xs)"
    by (metis map_snd_enumerate set_map)
  then show ?thesis by simp
qed

lemma requirements_report_empty:
  "requirements_report compile rs p = []
   \<longleftrightarrow> (\<forall>r \<in> set rs. \<exists>s. DeviceSelector r = Some s \<and> Error (compile s) = None)"
proof -
  have "requirements_report compile rs p = []
        \<longleftrightarrow> (\<forall>x \<in> set (enumerate 0 rs).
               \<exists>s. DeviceSelector (snd x) = Some s \<and> Error (compile s) = None)"
    by (auto simp: requirements_report_def selector_report_empty)
  also have "\<dots> \<longleftrightarrow> (\<forall>r \<in> set rs. \<exists>s. DeviceSelector r = Some s \<and> Error (compile s) = None)"
    by (rule all_enumerate_snd
        [of 0 rs "\<lambda>r. \<exists>s. DeviceSelector r = Some s \<and> Error (compile s) = None"])
  finally show ?thesis .
qed

lemma requirements_report_member:
  assumes "i < length rs"
    and "f \<in> set (selector_report compile (DeviceSelector (rs ! i))
           (indexed p i @ ''.deviceSelector''))"
  shows "f \<in> set (requirements_report compile rs p)"
proof -
  have "(i, rs ! i) \<in> set (enumerate 0 rs)"
    using assms(1) by (simp add: in_set_enumerate_eq)
  with assms(2) show ?thesis
    unfolding requirements_report_def by force
qed

lemma requests_report_member:
  assumes "k < length rs" and "f \<in> set (request_report compile p k (rs ! k))"
  shows "f \<in> set (requests_report compile rs p)"
proof -
  have "(k, rs ! k) \<in> set (enumerate 0 rs)"
    using assms(1) by (simp add: in_set_enumerate_eq)
  with assms(2) show ?thesis
    unfolding requests_report_def by force
qed

lemma constraints_report_member:
  assumes "i < length cs"
    and "f \<in> set (attribute_report (MatchAttribute (cs ! i)) (indexed p i @ ''.matchAttribute''))"
  shows "f \<in> set (constraints_report cs p)"
proof -
  have "(i, cs ! i) \<in> set (enumerate 0 cs)"
    using assms(1) by (simp add: in_set_enumerate_eq)
  with assms(2) show ?thesis
    unfolding constraints_report_def by force
qed

lemma constraints_report_NotNil:
  assumes "\<forall>c \<in> set cs. MatchAttribute c \<noteq> None"
  shows "NotNilFailed q \<notin> set (constraints_report cs p)"
proof
  assume "NotNilFailed q \<in> set (constraints_report cs p)"
  then obtain j c where "(j, c) \<in> set (enumerate 0 cs)" and "MatchAttribute c = None"
    unfolding constraints_report_def by (auto simp: attribute_report_NotNil)
  then have "c \<in> set cs" and "MatchAttribute c = None"
    by (auto simp: in_set_enumerate_eq)
  with assms show False by blast
qed

lemma requirements_report_NotNil:
  assumes "\<forall>r \<in> set rs. DeviceSelector r \<noteq> None"
  shows "NotNilFailed q \<notin> set (requirements_report compile rs p)"
proof
  assume "NotNilFailed q \<in> set (requirements_report compile rs p)"
  then obtain j r where "(j, r) \<in> set (enumerate 0 rs)" and "DeviceSelector r = None"
    unfolding requirements_report_def by (auto simp: selector_report_NotNil)
  then have "r \<in> set rs" and "DeviceSelector r = None"
    by (auto simp: in_set_enumerate_eq)
  with assms show False by blast
qed

lemma validateRequests_from_OneOf:
  "validateRequests_from compile t i (map (\<lambda>r. r\<lparr>OneOf := []\<rparr>) requests) path
     = validateRequests_from compile t i requests path"
  by (induction requests arbitrary: t i) (simp_all split: option.splits)

lemma validateRequests_from_unread:
  "validateRequests_from compile t i
     (map (\<lambda>r. r\<lparr>ResourceRequestDetail :=
                    map_option (\<lambda>d. d\<lparr>request_ClassReference := classReference r d,
                                       request_Config := config r d, Match := match r d\<rparr>)
                      (ResourceRequestDetail r),
                  OneOf := alternatives r\<rparr>) requests) path
   = validateRequests_from compile t i requests path"
  by (induction requests arbitrary: t i) (simp_all add: validateRequest_def split: option.splits)

lemma selector_report_NilFailed:
  "NilFailed e m \<in> set (selector_report compile sel p)
   \<longleftrightarrow> (\<exists>s. sel = Some s \<and> Error (compile s) = Some e \<and> m = p @ ''.selector parse error'')"
  by (cases sel) (auto simp: selector_report_simps split: option.splits)

lemma attribute_report_no_NilFailed: "NilFailed e m \<notin> set (attribute_report name p)"
  by (cases name) (simp_all add: attribute_report_simps)

lemma constraints_report_no_NilFailed: "NilFailed e m \<notin> set (constraints_report cs p)"
  by (auto simp: constraints_report_def attribute_report_no_NilFailed)

lemma requirements_report_no_NilFailed:
  assumes "\<forall>r \<in> set rs. \<forall>s. DeviceSelector r = Some s \<longrightarrow> Error (compile s) = None"
  shows "NilFailed e m \<notin> set (requirements_report compile rs p)"
proof
  assume "NilFailed e m \<in> set (requirements_report compile rs p)"
  then obtain j r s where "(j, r) \<in> set (enumerate 0 rs)"
    and "DeviceSelector r = Some s" and "Error (compile s) = Some e"
    unfolding requirements_report_def by (auto simp: selector_report_NilFailed)
  then have "r \<in> set rs" and "DeviceSelector r = Some s" and "Error (compile s) = Some e"
    by (auto simp: in_set_enumerate_eq)
  with assms show False by fastforce
qed

lemma requests_report_no_NilFailed:
  assumes "\<forall>r \<in> set rs. \<forall>d. ResourceRequestDetail r = Some d \<longrightarrow>
             (\<forall>q \<in> set (Requirements d). \<forall>s. DeviceSelector q = Some s \<longrightarrow>
                Error (compile s) = None)"
  shows "NilFailed e m \<notin> set (requests_report compile rs p)"
proof
  assume "NilFailed e m \<in> set (requests_report compile rs p)"
  then obtain j r where jr: "(j, r) \<in> set (enumerate 0 rs)"
    and mem: "NilFailed e m \<in> set (request_report compile p j r)"
    unfolding requests_report_def by auto
  from jr have r: "r \<in> set rs"
    by (auto simp: in_set_enumerate_eq)
  from mem obtain d where d: "ResourceRequestDetail r = Some d"
    and "NilFailed e m
           \<in> set (requirements_report compile (Requirements d) (indexed p j @ ''.requirements''))"
    by (auto simp: request_report_def split: option.splits)
  moreover from assms r d
  have "\<forall>q \<in> set (Requirements d). \<forall>s. DeviceSelector q = Some s \<longrightarrow> Error (compile s) = None"
    by blast
  ultimately show False
    using requirements_report_no_NilFailed by blast
qed

section \<open>Requests: the inline detail and the alternatives\<close>

text \<open>
  A request that carries alternatives and no inline detail is reported: the list
  \<^verbatim>\<open>OneOf\<close> is not empty, and \<^verbatim>\<open>validateRequests\<close> adds
  \<open>must request one device or oneOf\<close> for it.
\<close>

theorem validateRequests_oneOf_only_rejected:
  "OneOf \<lparr>Name = ''gpu'', ResourceRequestDetail = None,
      OneOf = [\<lparr>request_ClassReference = None, request_Config = [], AdminAccess = None,
                Match = [], Count = None, Requirements = []\<rparr>]\<rparr> \<noteq> []
   \<and> failures (validateRequests compile_ok T0
        [\<lparr>Name = ''gpu'', ResourceRequestDetail = None,
          OneOf = [\<lparr>request_ClassReference = None, request_Config = [], AdminAccess = None,
                    Match = [], Count = None, Requirements = []\<rparr>]\<rparr>]
        ''claim.spec.requests'')
     = [Errorf ''%s[%d]: must request one device or oneOf''
          [ArgString ''claim.spec.requests'', ArgInt 0]]"
  by (simp add: validateRequests_def t_Errorf_def T0_def)

text \<open>
  C1, as the code has it: among the failures that \<^verbatim>\<open>validateRequests\<close> adds, the
  failure \<open>must request one device or oneOf\<close> for index \<open>i\<close> is present exactly
  when the list has a request at \<open>i\<close> and that request has no inline
  \<^verbatim>\<open>ResourceRequestDetail\<close>. The alternatives \<^verbatim>\<open>OneOf\<close> play no part: a request
  with an inline detail is never reported so, one without is always.
\<close>

theorem validateRequests_requires_inline_detail:
  "Errorf ''%s[%d]: must request one device or oneOf'' [ArgString path, ArgInt i]
     \<in> set (new_failures t (validateRequests compile t requests path))
   \<longleftrightarrow> i < length requests \<and> ResourceRequestDetail (requests ! i) = None"
proof -
  have "Errorf ''%s[%d]: must request one device or oneOf'' [ArgString path, ArgInt i]
          \<in> set (requests_report compile requests path)
        \<longleftrightarrow> (\<exists>r. (i, r) \<in> set (enumerate 0 requests) \<and> ResourceRequestDetail r = None)"
    unfolding requests_report_def by (auto simp: request_report_Errorf)
  also have "\<dots> \<longleftrightarrow> i < length requests \<and> ResourceRequestDetail (requests ! i) = None"
    by (auto simp: in_set_enumerate_eq)
  finally show ?thesis
    by (simp add: validateRequests_add)
qed

text \<open>
  C9: \<^verbatim>\<open>validateRequests\<close> does not look at the alternatives. Its result is the same
  when every list \<^verbatim>\<open>OneOf\<close> is emptied; a request with an inline detail is validated
  as that detail alone, at the path \<open>path[0]\<close> when it is the first; and a request
  whose alternative has a selector that does not compile, next to an inline detail
  whose selector does, adds no failure.
\<close>

theorem validateRequests_ignores_OneOf:
  "validateRequests compile t (map (\<lambda>r. r\<lparr>OneOf := []\<rparr>) requests) path
     = validateRequests compile t requests path
   \<and> validateRequests compile t
        [\<lparr>Name = name, ResourceRequestDetail = Some detail, OneOf = alternatives\<rparr>] path
     = validateRequest compile t detail (path @ ''[0]'')
   \<and> Error (compile_sample ''device.driverName =='') \<noteq> None
   \<and> validateRequests compile_sample t
        [\<lparr>Name = ''gpu'',
          ResourceRequestDetail = Some \<lparr>request_ClassReference = None, request_Config = [],
            AdminAccess = None, Match = [], Count = None,
            Requirements = [\<lparr>DeviceSelector = Some ''device.driverName != null''\<rparr>]\<rparr>,
          OneOf = [\<lparr>request_ClassReference = None, request_Config = [],
            AdminAccess = None, Match = [], Count = None,
            Requirements = [\<lparr>DeviceSelector = Some ''device.driverName ==''\<rparr>]\<rparr>]\<rparr>]
        ''claim.spec.requests''
     = t"
  by (simp add: validateRequests_def validateRequests_from_OneOf indexed_def itoa.simps digit_def
      validateRequest_def validateRequestRequirements_def compile_sample_def)

section \<open>Attribute names of match constraints\<close>

text \<open>
  C2, the code at the name \<open>numa\<close>: the failure that \<^verbatim>\<open>validateMatchAttribute\<close>
  adds holds the format string and the name, and is the same for every \<open>path\<close>;
  the path is reported only for a nil name. The name \<open>numa.dra.example.com\<close> adds
  nothing.
\<close>

theorem validateMatchAttribute_numa_failure:
  "validateMatchAttribute t (Some ''numa'') path
     = t\<lparr>failures := failures t @
          [Errorf ''%q: must be a non-empty DNS domain (including at least one dot)''
             [ArgString ''numa'']]\<rparr>
   \<and> validateMatchAttribute t (Some ''numa.dra.example.com'') path = t
   \<and> validateMatchAttribute t None path = t\<lparr>failures := failures t @ [NotNilFailed path]\<rparr>"
  by (simp add: t_Errorf_def t_fail_def)

text \<open>
  C10: \<^verbatim>\<open>validateMatchAttribute\<close> leaves the test as it is exactly when the name,
  being there, has a dot anywhere in it; a nil name is reported. So the names
  \<open>.\<close>, \<open>a..\<close> and \<open>numa.\<close>, none of them a DNS domain, are accepted.
\<close>

theorem validateMatchAttribute_accepts_any_dot:
  "(validateMatchAttribute t (Some name) path = t \<longleftrightarrow> CHR ''.'' \<in> set name)
   \<and> validateMatchAttribute t None path \<noteq> t
   \<and> validateMatchAttribute t (Some ''.'') path = t
   \<and> validateMatchAttribute t (Some ''a..'') path = t
   \<and> validateMatchAttribute t (Some ''numa.'') path = t"
  by (simp add: validateMatchAttribute_add attribute_report_simps)

section \<open>Device selectors\<close>




section \<open>Structures with one and only one field set\<close>




section \<open>Decoding\<close>

text \<open>
  C8: when the decoder gives the error of a kind that is not registered,
  \<^verbatim>\<open>testDecode\<close> marks the test skipped and adds no failure; when it gives a device
  class, a claim or a claim template, \<^verbatim>\<open>testDecode\<close> validates the object as what
  it is, and an object of another registered type is not validated. Every other error
  of the decoder is a failure of the test. The decoder is a parameter.
\<close>

theorem testDecode_dispatch:
  "(decode content = Inl err \<and> IsNotRegisteredError err
      \<longrightarrow> testDecode decode compile t content = t\<lparr>skipped := True\<rparr>)
   \<and> (decode content = Inr (DeviceClassObject deviceClass)
      \<longrightarrow> testDecode decode compile t content
          = validateRequestRequirements compile t (class_Requirements deviceClass)
              ''class.requirements'')
   \<and> (decode content = Inr (ResourceClaimObject claim)
      \<longrightarrow> testDecode decode compile t content
          = validateResourceClaimSpec compile t (Spec claim) ''claim.spec'')
   \<and> (decode content = Inr (ResourceClaimTemplateObject template)
      \<longrightarrow> testDecode decode compile t content
          = validateResourceClaimSpec compile t (template_spec_Spec (template_Spec template))
              ''claimTemplate.spec.spec'')
   \<and> (decode content = Inr OtherObject \<longrightarrow> testDecode decode compile t content = t)
   \<and> (decode content = Inl err' \<and> \<not> IsNotRegisteredError err'
      \<longrightarrow> testDecode decode compile t content
          = t\<lparr>failures := failures t @ [NoErrorFailed (error_text err')]\<rparr>)"
  by (simp add: testDecode_def t_Skipf_def t_fail_def)

text \<open>
  The theorem at a document of the kind \<^verbatim>\<open>Pod\<close>, which the sample decoder does not
  know, and at a device class.
\<close>

theorem testDecode_dispatch_witness:
  "decode_sample ''kind: Pod'' = Inl (NotRegisteredErr ''no kind Pod is registered'')
   \<and> IsNotRegisteredError (NotRegisteredErr ''no kind Pod is registered'')
   \<and> testDecode decode_sample compile_sample T0 ''kind: Pod'' = T0\<lparr>skipped := True\<rparr>
   \<and> failures (testDecode decode_sample compile_sample T0 ''kind: Pod'') = []
   \<and> decode_sample ''kind: DeviceClass''
      = Inr (DeviceClassObject
          \<lparr>class_Requirements = [\<lparr>DeviceSelector = Some ''device.driverName ==''\<rparr>]\<rparr>)
   \<and> failures (testDecode decode_sample compile_sample T0 ''kind: DeviceClass'')
      = [NilFailed ''Syntax error: mismatched input''
           ''class.requirements[0].deviceSelector.selector parse error'']
   \<and> decode_sample [] = Inl (OtherErr ''Object Kind is missing'')
   \<and> \<not> IsNotRegisteredError (OtherErr ''Object Kind is missing'')
   \<and> testDecode decode_sample compile_sample T0 []
      = T0\<lparr>failures := [NoErrorFailed ''Object Kind is missing'']\<rparr>"
  using
    testDecode_dispatch [where decode = decode_sample and compile = compile_sample and t = T0
      and content = "''kind: Pod''" and err = "NotRegisteredErr ''no kind Pod is registered''"]
    testDecode_dispatch [where decode = decode_sample and compile = compile_sample and t = T0
      and content = "[]" and err' = "OtherErr ''Object Kind is missing''"]
    testDecode_dispatch [where decode = decode_sample and compile = compile_sample and t = T0
      and content = "''kind: DeviceClass''"
      and deviceClass =
        "\<lparr>class_Requirements = [\<lparr>DeviceSelector = Some ''device.driverName ==''\<rparr>]\<rparr>"]
  by (simp add: decode_sample_def compile_sample_def T0_def validateRequestRequirements_def
      t_fail_def indexed_def itoa.simps digit_def)

section \<open>Count, configuration and effective requests\<close>

text \<open>
  C5: a request whose count is not set has the minimum one and no maximum, so any
  number of instances from one up, as many as match, is within the count; when a range
  is set, a minimum that is not set is one and a maximum that is not set is no limit.
\<close>

theorem desiredCount_defaults:
  "desiredCount None = (1, None)
   \<and> (withinCount None x \<longleftrightarrow> 1 \<le> x)
   \<and> desiredCount (Some \<lparr>Minimum = None, Maximum = maximum\<rparr>) = (1, maximum)
   \<and> desiredCount (Some \<lparr>Minimum = minimum, Maximum = None\<rparr>)
      = (case minimum of None \<Rightarrow> 1 | Some m \<Rightarrow> m, None)
   \<and> (withinCount (Some \<lparr>Minimum = None, Maximum = None\<rparr>) x \<longleftrightarrow> 1 \<le> x)
   \<and> (withinCount (Some \<lparr>Minimum = None, Maximum = Some hi\<rparr>) x \<longleftrightarrow> 1 \<le> x \<and> x \<le> hi)
   \<and> (withinCount (Some \<lparr>Minimum = Some lo, Maximum = None\<rparr>) x \<longleftrightarrow> lo \<le> x)
   \<and> (withinCount (Some \<lparr>Minimum = Some lo, Maximum = Some hi\<rparr>) x \<longleftrightarrow> lo \<le> x \<and> x \<le> hi)"
  by (auto simp: desiredCount_def withinCount_def)

text \<open>
  C6: the merged list holds the entries of the claim, of the claim's class, of the
  request and of the request's class, in this order and each in its own order; an
  entry of a class has \<^verbatim>\<open>Admin\<close> true, an entry of the claim or the request has it
  false.
\<close>

theorem mergeConfig_order:
  "length (mergeConfig a b c d) = length a + length b + length c + length d
   \<and> (\<forall>i < length a. mergeConfig a b c d ! i = driverConfiguration False (a ! i))
   \<and> (\<forall>i < length b. mergeConfig a b c d ! (length a + i) = driverConfiguration True (b ! i))
   \<and> (\<forall>i < length c. mergeConfig a b c d ! (length a + length b + i)
        = driverConfiguration False (c ! i))
   \<and> (\<forall>i < length d. mergeConfig a b c d ! (length a + length b + length c + i)
        = driverConfiguration True (d ! i))
   \<and> Admin (driverConfiguration True x) \<and> \<not> Admin (driverConfiguration False x)"
  by (simp add: mergeConfig_def nth_append driverConfiguration_def)

text \<open>The theorem at one entry from each of the four sources.\<close>

theorem mergeConfig_order_witness:
  "(0::nat) < length [\<lparr>Vendor = Some \<lparr>DriverName = ''foozer.example.com'',
       Parameters = ''superfast: true''\<rparr>\<rparr>]
   \<and> mergeConfig
     [\<lparr>Vendor = Some \<lparr>DriverName = ''foozer.example.com'', Parameters = ''superfast: true''\<rparr>\<rparr>]
     [\<lparr>Vendor = Some \<lparr>DriverName = ''foozer.example.com'', Parameters = ''mode: shared''\<rparr>\<rparr>]
     [\<lparr>Vendor = Some \<lparr>DriverName = ''foozer.example.com'', Parameters = ''vlanID: 2000''\<rparr>\<rparr>]
     [\<lparr>Vendor = Some \<lparr>DriverName = ''foozer.example.com'', Parameters = ''mtu: 1500''\<rparr>\<rparr>]
   = [\<lparr>Admin = False, driver_Vendor = Some ''superfast: true''\<rparr>,
      \<lparr>Admin = True, driver_Vendor = Some ''mode: shared''\<rparr>,
      \<lparr>Admin = False, driver_Vendor = Some ''vlanID: 2000''\<rparr>,
      \<lparr>Admin = True, driver_Vendor = Some ''mtu: 1500''\<rparr>]"
  using mergeConfig_order [of
     "[\<lparr>Vendor = Some \<lparr>DriverName = ''foozer.example.com'', Parameters = ''superfast: true''\<rparr>\<rparr>]"
     "[\<lparr>Vendor = Some \<lparr>DriverName = ''foozer.example.com'', Parameters = ''mode: shared''\<rparr>\<rparr>]"
     "[\<lparr>Vendor = Some \<lparr>DriverName = ''foozer.example.com'', Parameters = ''vlanID: 2000''\<rparr>\<rparr>]"
     "[\<lparr>Vendor = Some \<lparr>DriverName = ''foozer.example.com'', Parameters = ''mtu: 1500''\<rparr>\<rparr>]"]
  by (simp add: mergeConfig_def driverConfiguration_def)

text \<open>
  C7: the effective request list is the claim's own list of requests when that is not
  empty; otherwise the default requests of the first referenced class that has any;
  otherwise the one default request, which has no class, no match criteria, no
  requirements and the count one.
\<close>

theorem effectiveRequests_cases:
  "(Requests claim \<noteq> [] \<longrightarrow> effectiveRequests claim classes = Requests claim)
   \<and> (Requests claim = [] \<and> i < length classes \<and> DefaultRequests (classes ! i) \<noteq> []
        \<and> (\<forall>j < i. DefaultRequests (classes ! j) = [])
      \<longrightarrow> effectiveRequests claim classes = DefaultRequests (classes ! i))
   \<and> (Requests claim = [] \<and> (\<forall>c \<in> set classes. DefaultRequests c = [])
      \<longrightarrow> effectiveRequests claim classes = [defaultRequest])
   \<and> (\<exists>detail. ResourceRequestDetail defaultRequest = Some detail
        \<and> request_ClassReference detail = None \<and> Match detail = []
        \<and> Requirements detail = [] \<and> desiredCount (Count detail) = (1, Some 1))"
proof (intro conjI impI)
  assume "Requests claim \<noteq> []"
  then show "effectiveRequests claim classes = Requests claim"
    by (simp add: effectiveRequests_def)
next
  assume a: "Requests claim = [] \<and> i < length classes \<and> DefaultRequests (classes ! i) \<noteq> []
        \<and> (\<forall>j < i. DefaultRequests (classes ! j) = [])"
  then have "find (\<lambda>c. DefaultRequests c \<noteq> []) classes = Some (classes ! i)"
    by (auto simp: find_Some_iff)
  with a show "effectiveRequests claim classes = DefaultRequests (classes ! i)"
    by (simp add: effectiveRequests_def)
next
  assume a: "Requests claim = [] \<and> (\<forall>c \<in> set classes. DefaultRequests c = [])"
  then have "find (\<lambda>c. DefaultRequests c \<noteq> []) classes = None"
    by (simp add: find_None_iff)
  with a show "effectiveRequests claim classes = [defaultRequest]"
    by (simp add: effectiveRequests_def)
next
  show "\<exists>detail. ResourceRequestDetail defaultRequest = Some detail
        \<and> request_ClassReference detail = None \<and> Match detail = []
        \<and> Requirements detail = [] \<and> desiredCount (Count detail) = (1, Some 1)"
    by (simp add: defaultRequest_def desiredCount_def)
qed

text \<open>
  The theorem at a claim with a request of its own, at a claim without requests that
  references the sample class, and at a claim without requests and without a class.
\<close>

theorem effectiveRequests_cases_witness:
  "effectiveRequests
     \<lparr>claim_ClassReference = None, claim_Config = [], Constraints = [],
      Requests = [\<lparr>Name = ''gpu'', ResourceRequestDetail = None, OneOf = []\<rparr>],
      Shareable = False\<rparr>
     [class_sample]
   = [\<lparr>Name = ''gpu'', ResourceRequestDetail = None, OneOf = []\<rparr>]
   \<and> referencedClasses catalog_sample (Some \<lparr>ResourceClassName = Some ''example.com-foozer''\<rparr>)
      = [class_sample]
   \<and> effectiveRequests
        \<lparr>claim_ClassReference = Some \<lparr>ResourceClassName = Some ''example.com-foozer''\<rparr>,
         claim_Config = [], Constraints = [], Requests = [], Shareable = False\<rparr>
        [class_sample]
      = [\<lparr>Name = ''foozer'', ResourceRequestDetail = None, OneOf = []\<rparr>]
   \<and> effectiveRequests
        \<lparr>claim_ClassReference = None, claim_Config = [], Constraints = [], Requests = [],
         Shareable = False\<rparr>
        []
      = [defaultRequest]"
  using
    effectiveRequests_cases [where classes = "[class_sample]" and claim =
      "\<lparr>claim_ClassReference = None, claim_Config = [], Constraints = [],
        Requests = [\<lparr>Name = ''gpu'', ResourceRequestDetail = None, OneOf = []\<rparr>],
        Shareable = False\<rparr>"]
    effectiveRequests_cases [where classes = "[class_sample]" and i = 0 and claim =
      "\<lparr>claim_ClassReference = Some \<lparr>ResourceClassName = Some ''example.com-foozer''\<rparr>,
        claim_Config = [], Constraints = [], Requests = [], Shareable = False\<rparr>"]
    effectiveRequests_cases [where classes = "[]" and claim =
      "\<lparr>claim_ClassReference = None, claim_Config = [], Constraints = [], Requests = [],
        Shareable = False\<rparr>"]
  by (simp add: class_sample_def catalog_sample_def referencedClasses_def)

end
